theory Spec2Isabelle
  imports Main "HOL-Library.Sublist"
begin

section \<open>JavaScript values used by the gateway\<close>

text \<open>
  Strings are lists of code units below 256 (bytes): paths are ASCII, header values are
  byte strings, and a query value is taken in its UTF-8 encoding, which is what
  \<open>encodeURIComponent\<close> percent-encodes. A value that may be \<open>null\<close> (the result of
  \<open>Headers.get\<close>, of \<open>URLSearchParams.get\<close>, the variable \<open>bestMatch\<close>) is an
  option; \<open>truthy\<close> is the test \<open>if (v)\<close> performs on it: \<open>null\<close> and the empty
  string are false.

  \<open>s.startsWith(t)\<close> is \<^const>\<open>prefix\<close> \<open>t s\<close> and \<open>s.slice(n)\<close> is
  \<^const>\<open>drop\<close> \<open>n s\<close>.
\<close>

definition truthy :: "string option \<Rightarrow> bool" where
  "truthy v = (case v of None \<Rightarrow> False | Some s \<Rightarrow> s \<noteq> [])"

text \<open>String conversion inside a template literal or a call: \<open>null\<close> becomes \<open>"null"\<close>.\<close>

definition js_String :: "string option \<Rightarrow> string" where
  "js_String v = (case v of None \<Rightarrow> ''null'' | Some s \<Rightarrow> s)"

definition lower_char :: "char \<Rightarrow> char" where
  "lower_char c =
     (case map_of (zip ''ABCDEFGHIJKLMNOPQRSTUVWXYZ'' ''abcdefghijklmnopqrstuvwxyz'') c of
        Some d \<Rightarrow> d | None \<Rightarrow> c)"

definition toLowerCase :: "string \<Rightarrow> string" where
  "toLowerCase s = map lower_char s"

text \<open>\<open>s.includes(t)\<close>: \<open>t\<close> occurs in \<open>s\<close> as a contiguous substring.\<close>

fun js_includes :: "string \<Rightarrow> string \<Rightarrow> bool" where
  "js_includes [] t = (t = [])"
| "js_includes (c # cs) t = (prefix t (c # cs) \<or> js_includes cs t)"

text \<open>\<open>s.split(sep)[0]\<close> for a non-empty \<open>sep\<close>: the text before its first occurrence.\<close>

fun split_first :: "string \<Rightarrow> string \<Rightarrow> string" where
  "split_first sep [] = []"
| "split_first sep (c # cs) = (if prefix sep (c # cs) then [] else c # split_first sep cs)"

text \<open>\<open>s.split(d)\<close> for a separator of one character; the result is never empty.\<close>

fun split_char :: "char \<Rightarrow> string \<Rightarrow> string list" where
  "split_char d [] = [[]]"
| "split_char d (c # cs) =
     (if c = d then [] # split_char d cs
      else (case split_char d cs of h # t \<Rightarrow> (c # h) # t | [] \<Rightarrow> [[c]]))"

text \<open>\<open>parts.join(sep)\<close>.\<close>

fun join :: "string \<Rightarrow> string list \<Rightarrow> string" where
  "join sep [] = []"
| "join sep [x] = x"
| "join sep (x # y # ys) = x @ sep @ join sep (y # ys)"

text \<open>White space that \<open>trim\<close> removes, among the code units below 256.\<close>

definition is_space :: "char \<Rightarrow> bool" where
  "is_space c = (c \<in> set [CHR 0x09, CHR 0x0A, CHR 0x0B, CHR 0x0C, CHR 0x0D, CHR 0x20, CHR 0xA0])"

definition trim :: "string \<Rightarrow> string" where
  "trim s = rev (dropWhile is_space (rev (dropWhile is_space s)))"

text \<open>
  \<open>s.substring(a, b)\<close>: the arguments are swapped when \<open>a > b\<close> and clamped to the
  length of \<open>s\<close>.
\<close>

definition substring :: "nat \<Rightarrow> nat \<Rightarrow> string \<Rightarrow> string" where
  "substring a b s = (let lo = min a b; hi = max a b in take (hi - lo) (drop lo s))"

text \<open>
  \<open>encodeURIComponent\<close>: every byte outside the unreserved set
  \<open>A-Z a-z 0-9 - _ . ! ~ * ' ( )\<close> becomes \<open>%XX\<close> with upper-case hexadecimal digits.
\<close>

definition hex_digit :: "nat \<Rightarrow> char" where
  "hex_digit n = ''0123456789ABCDEF'' ! n"

definition uri_unreserved :: "char \<Rightarrow> bool" where
  "uri_unreserved c =
     (c \<in> set ''ABCDEFGHIJKLMNOPQRSTUVWXYZabcdefghijklmnopqrstuvwxyz0123456789-_.!~*()''
      \<or> c = CHR 0x27)"

definition encode_char :: "char \<Rightarrow> string" where
  "encode_char c =
     (if uri_unreserved c then [c]
      else [CHR ''%'', hex_digit (of_char c div 16), hex_digit (of_char c mod 16)])"

definition encodeURIComponent :: "string \<Rightarrow> string" where
  "encodeURIComponent s = concat (map encode_char s)"

section \<open>Headers, requests and responses\<close>

text \<open>
  A \<open>Headers\<close> object is the list of its entries. Names are compared without regard to
  case; \<open>set\<close> removes every entry of the name and stores the lower-cased name, as the
  platform does.
\<close>

type_synonym headers = "(string \<times> string) list"

definition headers_get :: "headers \<Rightarrow> string \<Rightarrow> string option" where
  "headers_get h name = map_of (map (\<lambda>(k, v). (toLowerCase k, v)) h) (toLowerCase name)"

definition headers_has :: "headers \<Rightarrow> string \<Rightarrow> bool" where
  "headers_has h name = (headers_get h name \<noteq> None)"

definition headers_delete :: "headers \<Rightarrow> string \<Rightarrow> headers" where
  "headers_delete h name = filter (\<lambda>(k, v). toLowerCase k \<noteq> toLowerCase name) h"

definition headers_set :: "headers \<Rightarrow> string \<Rightarrow> string \<Rightarrow> headers" where
  "headers_set h name v = headers_delete h name @ [(toLowerCase name, v)]"

text \<open>
  \<open>new URL(request.url)\<close>: the gateway reads \<open>hostname\<close>, \<open>pathname\<close>, \<open>search\<close>
  (empty, or the query with its leading \<open>?\<close>) and \<open>searchParams\<close> (the decoded pairs).
\<close>

record url =
  hostname :: string
  pathname :: string
  search :: string
  searchParams :: "(string \<times> string) list"

text \<open>\<open>searchParams.get(name)\<close>: the first value of the name, or \<open>null\<close>.\<close>

definition searchParams_get :: "url \<Rightarrow> string \<Rightarrow> string option" where
  "searchParams_get u name = map_of (searchParams u) name"

record request =
  req_method :: string
  req_url :: url
  req_headers :: headers
  req_body :: "string option"

record response =
  status :: nat
  statusText :: string
  res_headers :: headers
  res_body :: string

text \<open>
  An outbound \<open>fetch\<close>. The \<open>redirect\<close> option is \<open>follow\<close> unless the call sets it.
  The network is a parameter \<open>net\<close>: it answers a fetch with a response, or with
  \<open>None\<close> when the promise is rejected. A handler returns the fetches it issued, in
  order, and either the response for the client or the exception it let escape: the
  rejection of a fetch, the \<open>Error\<close> of \<open>parseAuthenticate\<close>, or the \<open>TypeError\<close> of
  \<open>new URL\<close>.
\<close>

datatype redirect = manual | follow

record fetch =
  f_url :: string
  f_method :: string
  f_headers :: headers
  f_body :: "string option"
  f_redirect :: redirect

datatype error = FetchRejected | InvalidHeader | InvalidUrl

type_synonym network = "fetch \<Rightarrow> response option"

type_synonym outcome = "fetch list \<times> (error + response)"

definition await_fetch :: "network \<Rightarrow> fetch \<Rightarrow> error + response" where
  "await_fetch net fr = (case net fr of None \<Rightarrow> Inl FetchRejected | Some r \<Rightarrow> Inr r)"

section \<open>The gateway with the \<open>/v2/token\<close> endpoint (part_000)\<close>

subsection \<open>Constants and route tables\<close>

definition DOCKER_HUB_URL :: string where
  "DOCKER_HUB_URL = ''https://registry-1.docker.io''"

definition DEFAULT_HEADERS :: "string list" where
  "DEFAULT_HEADERS = [''accept'', ''content-type'', ''authorization'', ''user-agent'']"

record config =
  baseUrl :: string
  allowedHeaders :: "string list option"

definition plain :: "string \<Rightarrow> config" where
  "plain b = \<lparr>baseUrl = b, allowedHeaders = None\<rparr>"

definition registryConfigs :: "(string \<times> config) list" where
  "registryConfigs =
    [(''register/docker/elastic'', plain ''https://docker.elastic.co''),
     (''register/docker/hub'', plain DOCKER_HUB_URL),
     (''register/google'', plain ''https://gcr.io''),
     (''register/github'', plain ''https://ghcr.io''),
     (''register/k8s'', plain ''https://registry.k8s.io''),
     (''register/microsoft'', plain ''https://mcr.microsoft.com''),
     (''register/nvidia'', plain ''https://nvcr.io''),
     (''register/quay'', plain ''https://quay.io''),
     (''register/ollama'', plain ''https://registry.ollama.ai'')]"

definition aiConfigs :: "(string \<times> config) list" where
  "aiConfigs =
    [(''/ai/discord'', plain ''https://discord.com/api''),
     (''/ai/telegram'', plain ''https://api.telegram.org''),
     (''/ai/openai'', plain ''https://api.openai.com''),
     (''/ai/claude'',
        \<lparr>baseUrl = ''https://api.anthropic.com'', allowedHeaders = Some [''anthropic-version'']\<rparr>),
     (''/ai/gemini'',
        \<lparr>baseUrl = ''https://generativelanguage.googleapis.com'',
         allowedHeaders = Some [''x-goog-api-key'']\<rparr>),
     (''/ai/meta'', plain ''https://www.meta.ai/api''),
     (''/ai/groq'', plain ''https://api.groq.com/openai''),
     (''/ai/xai'', \<lparr>baseUrl = ''https://api.x.ai'', allowedHeaders = Some [''x-api-key'']\<rparr>),
     (''/ai/cohere'', plain ''https://api.cohere.ai''),
     (''/ai/huggingface'', plain ''https://api.huggingface.co''),
     (''/ai/together'', plain ''https://api.together.ai''),
     (''/ai/novita'', plain ''https://api.novita.ai''),
     (''/ai/portkey'', plain ''https://api.portkey.ai''),
     (''/ai/fireworks'', plain ''https://api.fireworks.ai''),
     (''/ai/openrouter'', plain ''https://openrouter.ai/api'')]"

text \<open>\<open>Object.keys(table)\<close>: the keys in insertion order.\<close>

definition Object_keys :: "(string \<times> 'a) list \<Rightarrow> string list" where
  "Object_keys table = map fst table"

subsection \<open>extractPrefixAndRest\<close>

text \<open>
  The loop over the prefixes with its variable \<open>bestMatch\<close>. A prefix matches when the
  path starts with \<open>prefix + "/"\<close> or equals the prefix; a match replaces
  \<open>bestMatch\<close> when \<open>!bestMatch\<close> holds (null or empty) or when it is strictly longer.
\<close>

fun bestMatch_loop :: "string \<Rightarrow> string list \<Rightarrow> string option \<Rightarrow> string option" where
  "bestMatch_loop pathSegment [] bestMatch = bestMatch"
| "bestMatch_loop pathSegment (p # ps) bestMatch =
     bestMatch_loop pathSegment ps
       (if prefix (p @ ''/'') pathSegment \<or> pathSegment = p
        then (case bestMatch of
                None \<Rightarrow> Some p
              | Some b \<Rightarrow> if b = [] \<or> length p > length b then Some p else Some b)
        else bestMatch)"

definition extractPrefixAndRest :: "string \<Rightarrow> string list \<Rightarrow> string option \<times> string" where
  "extractPrefixAndRest pathSegment pfxs =
     (case bestMatch_loop pathSegment pfxs None of
        None \<Rightarrow> (None, pathSegment)
      | Some b \<Rightarrow> if b \<noteq> [] then (Some b, drop (length b) pathSegment)
                  else (None, pathSegment))"

subsection \<open>addSecurityHeaders\<close>

definition addSecurityHeaders :: "headers \<Rightarrow> headers" where
  "addSecurityHeaders h =
     headers_set
       (headers_set (headers_set h ''X-Content-Type-Options'' ''nosniff'')
          ''X-Frame-Options'' ''DENY'')
       ''Referrer-Policy'' ''no-referrer''"

subsection \<open>responseUnauthorized\<close>

text \<open>
  One round of the loop over \<open>authHeader.split(',')\<close>; the state is
  \<open>(service, scope, otherParams)\<close>.
\<close>

definition auth_part :: "string \<times> string \<times> string list \<Rightarrow> string \<Rightarrow> string \<times> string \<times> string list" where
  \<open>auth_part st part =
     (case st of (service, scope, otherParams) \<Rightarrow>
        let trimmedPart = trim part in
        if prefix ''realm="'' trimmedPart then (service, scope, otherParams)
        else if prefix ''service="'' trimmedPart
          then (substring (length ''service="'') (length trimmedPart - 1) trimmedPart,
                scope, otherParams)
        else if prefix ''scope="'' trimmedPart
          then (service,
                substring (length ''scope="'') (length trimmedPart - 1) trimmedPart,
                otherParams)
        else (service, scope, otherParams @ [trimmedPart]))\<close>

definition parse_challenge :: "string option \<Rightarrow> string \<times> string \<times> string list" where
  "parse_challenge authHeader =
     (case authHeader of
        None \<Rightarrow> (''registry.docker.io'', ''repository:*:pull'', [])
      | Some a \<Rightarrow>
          if a = [] then (''registry.docker.io'', ''repository:*:pull'', [])
          else foldl auth_part (''registry.docker.io'', ''repository:*:pull'', [])
                 (split_char CHR '','' a))"

text \<open>
  The variable \<open>repoName\<close> of \<open>responseUnauthorized\<close> and of
  \<open>handleApiRequest\<close>: \<open>path.split('/manifests/')[0].split('/blobs/')[0]\<close>.
\<close>

definition repoName_of :: "string \<Rightarrow> string" where
  "repoName_of path = split_first ''/blobs/'' (split_first ''/manifests/'' path)"

text \<open>The scope inferred from the requested image path, or the scope kept.\<close>

definition infer_scope :: "string option \<Rightarrow> string \<Rightarrow> string \<Rightarrow> string option \<Rightarrow> string" where
  "infer_scope authHeader service scope requestedImagePath =
     (if (\<not> truthy authHeader \<or> \<not> js_includes (js_String authHeader) ''scope=''
          \<or> scope = ''repository:*:pull'') \<and> truthy requestedImagePath
      then
        (let repoName0 = repoName_of (js_String requestedImagePath);
             repoName =
               (if service = ''registry.docker.io'' \<and> repoName0 \<noteq> []
                   \<and> \<not> js_includes repoName0 ''/'' \<and> \<not> js_includes repoName0 '':''
                then ''library/'' @ repoName0 else repoName0)
         in if repoName \<noteq> [] then ''repository:'' @ repoName @ '':pull'' else scope)
      else scope)"

definition responseUnauthorized :: "url \<Rightarrow> string option \<Rightarrow> string option \<Rightarrow> response" where
  \<open>responseUnauthorized u authHeader requestedImagePath =
     (let newRealm = ''https://'' @ hostname u @ ''/v2/token'' in
      case parse_challenge authHeader of (service, scope0, otherParams) \<Rightarrow>
        let scope = infer_scope authHeader service scope0 requestedImagePath;
            newAuthHeader =
              ''Bearer realm="'' @ newRealm @ ''",service="'' @ service
                @ ''",scope="'' @ scope @ ''"''
                @ (if otherParams \<noteq> [] then '','' @ join '','' otherParams else [])
        in \<lparr>status = 401, statusText = [],
            res_headers =
              headers_set (headers_set [] ''Content-Type'' ''application/json'')
                ''WWW-Authenticate'' newAuthHeader,
            res_body = ''{"error":"Unauthorized"}''\<rparr>)\<close>

subsection \<open>handleTokenRequest\<close>

definition handleTokenRequest :: "network \<Rightarrow> request \<Rightarrow> outcome" where
  "handleTokenRequest net req =
     (let service = searchParams_get (req_url req) ''service'';
          scope = searchParams_get (req_url req) ''scope'';
          encodedService = encodeURIComponent (js_String service);
          encodedScope = encodeURIComponent (js_String scope);
          tokenUrl = ''https://auth.docker.io/token?service='' @ encodedService
                       @ ''&scope='' @ encodedScope;
          hdrs = headers_delete (req_headers req) ''host'';
          fr = \<lparr>f_url = tokenUrl, f_method = ''GET'', f_headers = hdrs, f_body = None,
                f_redirect = follow\<rparr>
      in ([fr], await_fetch net fr))"

subsection \<open>handleGenericApiRequest\<close>

text \<open>The loop over \<open>request.headers.entries()\<close> that fills the fresh \<open>Headers\<close>.\<close>

definition filter_headers :: "string list \<Rightarrow> headers \<Rightarrow> headers" where
  "filter_headers combinedAllowedHeaders entries =
     foldl (\<lambda>h (key, v). if toLowerCase key \<in> set combinedAllowedHeaders
                          then headers_set h key v else h) [] entries"

definition secured :: "response \<Rightarrow> response" where
  "secured r = r\<lparr>res_headers := addSecurityHeaders (res_headers r)\<rparr>"

definition handleGenericApiRequest ::
    "network \<Rightarrow> request \<Rightarrow> string \<Rightarrow> string \<Rightarrow> string \<Rightarrow> string list option \<Rightarrow> outcome" where
  "handleGenericApiRequest net req base restPath srch allowed =
     (let combinedAllowedHeaders =
            DEFAULT_HEADERS @ (case allowed of None \<Rightarrow> [] | Some l \<Rightarrow> l);
          hdrs = filter_headers combinedAllowedHeaders (req_headers req);
          targetUrl = base @ (if prefix ''/'' restPath then restPath else ''/'' @ restPath) @ srch;
          fr = \<lparr>f_url = targetUrl, f_method = req_method req, f_headers = hdrs,
                f_body = req_body req, f_redirect = follow\<rparr>
      in ([fr], case net fr of None \<Rightarrow> Inl FetchRejected | Some r \<Rightarrow> Inr (secured r)))"

subsection \<open>handleRegistryRequest\<close>

definition handleRegistryRequest ::
    "network \<Rightarrow> request \<Rightarrow> string \<Rightarrow> string \<Rightarrow> string \<Rightarrow> outcome" where
  "handleRegistryRequest net req base imagePath srch =
     (let cleanedImagePath = (if prefix ''/'' imagePath then drop 1 imagePath else imagePath);
          targetUrl = base @ ''/v2/'' @ cleanedImagePath @ srch;
          isDockerHub = (base = DOCKER_HUB_URL);
          newReq = \<lparr>f_url = targetUrl, f_method = req_method req, f_headers = req_headers req,
                    f_body = req_body req, f_redirect = manual\<rparr>
      in case net newReq of
           None \<Rightarrow> ([newReq], Inl FetchRejected)
         | Some r \<Rightarrow>
             if status r = 401
             then ([newReq],
                   Inr (responseUnauthorized (req_url req)
                          (headers_get (res_headers r) ''Www-Authenticate'')
                          (Some cleanedImagePath)))
             else if isDockerHub \<and> (status r = 307 \<or> status r = 302)
                     \<and> truthy (headers_get (res_headers r) ''Location'')
             then (let chase = \<lparr>f_url = js_String (headers_get (res_headers r) ''Location''),
                                 f_method = ''GET'', f_headers = [], f_body = None,
                                 f_redirect = follow\<rparr>
                   in ([newReq, chase], await_fetch net chase))
             else ([newReq], Inr (secured r)))"

subsection \<open>handleApiRequest and handleRequest\<close>

text \<open>
  The rewriting of an official image for Docker Hub: \<open>library/\<close> is put in front of the
  image path when the repository name, the text before \<open>/manifests/\<close> and before
  \<open>/blobs/\<close>, is not empty and has neither \<open>/\<close> nor \<open>:\<close>.
\<close>

definition library_path :: "string \<Rightarrow> string" where
  "library_path finalImagePath =
     (let repoName = repoName_of finalImagePath
      in if repoName \<noteq> [] \<and> \<not> js_includes repoName ''/'' \<and> \<not> js_includes repoName '':''
         then ''library/'' @ finalImagePath else finalImagePath)"

definition static_response :: "string \<Rightarrow> string \<Rightarrow> response" where
  "static_response text ctype =
     \<lparr>status = 200, statusText = [],
      res_headers = headers_set [] ''Content-Type'' ctype, res_body = text\<rparr>"

definition not_found :: response where
  \<open>not_found =
     \<lparr>status = 404, statusText = [],
      res_headers = headers_set [] ''Content-Type'' ''application/json'',
      res_body = ''{"error":"Not Found"}''\<rparr>\<close>

text \<open>
  \<open>new Response('Internal Server Error', { status: 500 })\<close>: a string body without a
  content type gets the platform's default one.
\<close>

definition internal_error :: response where
  "internal_error =
     \<lparr>status = 500, statusText = [],
      res_headers = [(''content-type'', ''text/plain;charset=UTF-8'')],
      res_body = ''Internal Server Error''\<rparr>"

text \<open>
  The ping fetch is awaited inside the \<open>try\<close> block, so its rejection is caught and
  answered with 500; the promises of \<open>handleRegistryRequest\<close> and
  \<open>handleGenericApiRequest\<close> are returned without \<open>await\<close>, so their rejection escapes.
\<close>

definition handleApiRequest :: "network \<Rightarrow> request \<Rightarrow> outcome" where
  "handleApiRequest net req =
     (let u = req_url req; path = pathname u; srch = search u in
      if path = ''/'' \<or> path = ''/index.html''
        then ([], Inr (static_response ''Service is running!'' ''text/html; charset=utf-8''))
      else if path = ''/robots.txt''
        then ([], Inr (static_response (''User-agent: *'' @ [CHR 0x0A] @ ''Disallow: /'')
                         ''text/plain; charset=utf-8''))
      else if prefix ''/v2/'' path then
        (let v2Path = drop 4 path in
         if v2Path = [] \<or> v2Path = ''/'' then
           (let ping = \<lparr>f_url = DOCKER_HUB_URL @ ''/v2/'', f_method = req_method req,
                        f_headers = req_headers req, f_body = None, f_redirect = manual\<rparr>
            in case net ping of
                 None \<Rightarrow> ([ping], Inr internal_error)
               | Some pingResponse \<Rightarrow>
                   if status pingResponse = 401
                   then ([ping],
                         Inr (responseUnauthorized u
                                (headers_get (res_headers pingResponse) ''Www-Authenticate'')
                                None))
                   else ([ping], Inr pingResponse))
         else
           (case extractPrefixAndRest v2Path (Object_keys registryConfigs) of
              (registryPrefix, imagePath) \<Rightarrow>
                (case (case registryPrefix of
                         Some p \<Rightarrow> map_option (\<lambda>c. (baseUrl c, imagePath)) (map_of registryConfigs p)
                       | None \<Rightarrow> Some (DOCKER_HUB_URL, v2Path)) of
                   None \<Rightarrow> ([], Inr internal_error)
                 | Some (targetBaseUrl, finalImagePath0) \<Rightarrow>
                     (let finalImagePath =
                            (if targetBaseUrl = DOCKER_HUB_URL then library_path finalImagePath0
                             else finalImagePath0);
                          cleanedFinalImagePath =
                            (if prefix ''/'' finalImagePath then drop 1 finalImagePath
                             else finalImagePath)
                      in handleRegistryRequest net req targetBaseUrl cleanedFinalImagePath srch))))
      else
        (case extractPrefixAndRest path (Object_keys aiConfigs) of
           (aiPrefix, restPath) \<Rightarrow>
             (case aiPrefix of
                None \<Rightarrow> ([], Inr not_found)
              | Some p \<Rightarrow>
                  (case map_of aiConfigs p of
                     None \<Rightarrow> ([], Inr internal_error)
                   | Some c \<Rightarrow>
                       handleGenericApiRequest net req (baseUrl c) restPath srch
                         (allowedHeaders c)))))"

definition handleRequest :: "network \<Rightarrow> request \<Rightarrow> outcome" where
  "handleRequest net req =
     (if pathname (req_url req) = ''/v2/token'' then handleTokenRequest net req
      else handleApiRequest net req)"

section \<open>The gateway with one route table (part_001, second file)\<close>

text \<open>
  This file declares \<open>handleRequest\<close> twice, and \<open>originalHandler\<close> is bound to the
  second declaration itself: a request for \<open>/v2/token\<close> reaches \<open>handleTokenRequest\<close>,
  every other request calls \<open>handleRequest\<close> again without end and never reaches the
  file's \<open>handleRegistryRequest\<close>. Of this file the two functions that the claims cite
  are embedded, each as a function of its arguments: \<open>responseUnauthorized\<close> and
  \<open>handleTokenRequest\<close>.
\<close>

text \<open>
  \<open>authHeader.match(/key="([^"]+)"/)\<close>, first capture group: at the leftmost place
  where the literal \<open>key="\<close> is followed by at least one character other than a
  double quote and then by a double quote, the characters in between.
\<close>

definition quoted_at :: "string \<Rightarrow> string \<Rightarrow> string option" where
  "quoted_at lit s =
     (if prefix lit s
      then (let rest = drop (length lit) s;
                run = takeWhile (\<lambda>c. c \<noteq> CHR 0x22) rest
            in if run \<noteq> [] \<and> length run < length rest then Some run else None)
      else None)"

fun regex_quoted :: "string \<Rightarrow> string \<Rightarrow> string option" where
  "regex_quoted lit [] = None"
| "regex_quoted lit (c # cs) =
     (case quoted_at lit (c # cs) of Some m \<Rightarrow> Some m | None \<Rightarrow> regex_quoted lit cs)"

definition realmRegex :: "string \<Rightarrow> string option" where
  \<open>realmRegex authHeader = regex_quoted ''realm="'' authHeader\<close>

definition serviceRegex :: "string \<Rightarrow> string option" where
  \<open>serviceRegex authHeader = regex_quoted ''service="'' authHeader\<close>

definition unauthorized_with :: "string \<Rightarrow> response" where
  \<open>unauthorized_with challenge =
     \<lparr>status = 401, statusText = [],
      res_headers =
        headers_set (headers_set [] ''Www-Authenticate'' challenge)
          ''Content-Type'' ''application/json'',
      res_body = ''{"error":"Unauthorized"}''\<rparr>\<close>

definition responseUnauthorized_single :: "url \<Rightarrow> string option \<Rightarrow> response" where
  \<open>responseUnauthorized_single u authHeader =
     (case (if truthy authHeader
            then (realmRegex (js_String authHeader), serviceRegex (js_String authHeader))
            else (None, None)) of
        (Some realmMatch, Some service) \<Rightarrow>
          unauthorized_with
            (''Bearer realm="'' @ (''https://'' @ hostname u @ ''/v2/token'')
               @ ''",service="'' @ service @ ''"'')
      | _ \<Rightarrow>
          unauthorized_with
            (''Bearer realm="https://'' @ hostname u
               @ ''/v2/token",service="registry.docker.io"''))\<close>


section \<open>The gateway with the \<open>/v2/auth\<close> endpoint (part_001, first file)\<close>

text \<open>
  The first steps of \<open>handleAuthRequest\<close>: the service and the scope it relays. The
  proxy's own service name is mapped back to Docker Hub's, and for Docker Hub a scope
  of three parts whose repository has no \<open>/\<close> gets \<open>library/\<close>.
\<close>

definition handleAuthRequest_params :: "request \<Rightarrow> string option \<times> string option" where
  "handleAuthRequest_params req =
     (let service0 = searchParams_get (req_url req) ''service'';
          scope = searchParams_get (req_url req) ''scope'';
          service = (if service0 = Some ''cloudflare-docker-proxy''
                     then Some ''registry.docker.io'' else service0)
      in if truthy scope \<and> service = Some ''registry.docker.io''
         then (let scopeParts = split_char CHR '':'' (js_String scope)
               in if length scopeParts = 3 \<and> \<not> js_includes (scopeParts ! 1) ''/''
                  then (service,
                        Some (join '':'' (scopeParts[1 := ''library/'' @ scopeParts ! 1])))
                  else (service, scope))
         else (service, scope))"

text \<open>
  \<open>parseAuthenticate\<close> collects, with the regular expression
  \<open>/(?<=\=")(?:\\.|[^"\\])*(?=")/g\<close>, every text that stands right after \<open>="\<close> and
  right before a double quote. \<open>escaped_run\<close> is the longest text the middle of the
  expression matches at the start of a string: pairs of a backslash and a character
  that is no line terminator, and characters that are neither a double quote nor a
  backslash.
\<close>

fun escaped_run :: "string \<Rightarrow> string" where
  "escaped_run [] = []"
| "escaped_run [c] = (if c = CHR 0x22 \<or> c = CHR 0x5C then [] else [c])"
| "escaped_run (c # d # cs) =
     (if c = CHR 0x22 then []
      else if c = CHR 0x5C
        then (if d = CHR 0x0A \<or> d = CHR 0x0D then [] else c # d # escaped_run cs)
      else c # escaped_run (d # cs))"

text \<open>
  The matches from left to right. \<open>p2\<close> and \<open>p1\<close> are the two characters before the
  position; \<open>skip\<close> counts the positions inside the last match, where no new match
  starts. After an empty match the search moves on by one position.
\<close>

fun quoted_values :: "char \<Rightarrow> char \<Rightarrow> nat \<Rightarrow> string \<Rightarrow> string list" where
  "quoted_values p2 p1 skip [] = []"
| "quoted_values p2 p1 skip (c # cs) =
     (if skip = 0 \<and> p2 = CHR ''='' \<and> p1 = CHR 0x22
      then (let run = escaped_run (c # cs)
            in if prefix [CHR 0x22] (drop (length run) (c # cs))
               then run # quoted_values p1 c (length run - 1) cs
               else quoted_values p1 c 0 cs)
      else quoted_values p1 c (skip - 1) cs)"

record www_authenticate =
  wa_realm :: string
  wa_service :: string

definition parseAuthenticate :: "string \<Rightarrow> error + www_authenticate" where
  "parseAuthenticate authenticateStr =
     (let matches = quoted_values (CHR 0x00) (CHR 0x00) 0 authenticateStr
      in if length matches < 2 then Inl InvalidHeader
         else Inr \<lparr>wa_realm = matches ! 0, wa_service = matches ! 1\<rparr>)"

text \<open>
  The URL interface of the platform is a parameter \<open>to_url\<close>: \<open>new URL(realm)\<close>
  followed by \<open>searchParams.set\<close> for the given pairs, as the URL it serialises to, or
  \<open>None\<close> when the constructor throws.
\<close>

type_synonym url_interface = "string \<Rightarrow> (string \<times> string) list \<Rightarrow> string option"

definition fetchToken ::
    "url_interface \<Rightarrow> network \<Rightarrow> www_authenticate \<Rightarrow> string option \<Rightarrow> string option \<Rightarrow> outcome" where
  "fetchToken to_url net wwwAuthenticate scope authorization =
     (case to_url (wa_realm wwwAuthenticate)
             ((if wa_service wwwAuthenticate \<noteq> []
               then [(''service'', wa_service wwwAuthenticate)] else [])
              @ (if truthy scope then [(''scope'', js_String scope)] else [])) of
        None \<Rightarrow> ([], Inl InvalidUrl)
      | Some u \<Rightarrow>
          (let hdrs = (if truthy authorization
                       then headers_set [] ''Authorization'' (js_String authorization) else []);
               fr = \<lparr>f_url = u, f_method = ''GET'', f_headers = hdrs, f_body = None,
                     f_redirect = follow\<rparr>
           in ([fr], await_fetch net fr)))"

definition no_challenge :: response where
  \<open>no_challenge =
     \<lparr>status = 500, statusText = [],
      res_headers = [(''content-type'', ''text/plain;charset=UTF-8'')],
      res_body = ''{"error":"Failed to get upstream authentication challenge"}''\<rparr>\<close>

definition handleAuthRequest :: "url_interface \<Rightarrow> network \<Rightarrow> request \<Rightarrow> outcome" where
  "handleAuthRequest to_url net req =
     (case handleAuthRequest_params req of
        (service, scope) \<Rightarrow>
          (let authorization = headers_get (req_headers req) ''Authorization'';
               ping = \<lparr>f_url = DOCKER_HUB_URL @ ''/v2/'', f_method = ''GET'', f_headers = [],
                       f_body = None, f_redirect = manual\<rparr>
           in case net ping of
                None \<Rightarrow> ([ping], Inl FetchRejected)
              | Some pingResp \<Rightarrow>
                  (let authenticateStr = headers_get (res_headers pingResp) ''WWW-Authenticate''
                   in if \<not> truthy authenticateStr then ([ping], Inr no_challenge)
                      else (case parseAuthenticate (js_String authenticateStr) of
                              Inl e \<Rightarrow> ([ping], Inl e)
                            | Inr wwwAuthenticate \<Rightarrow>
                                (case fetchToken to_url net wwwAuthenticate scope authorization of
                                   (fetches, result) \<Rightarrow> (ping # fetches, result))))))"

text \<open>
  The correction of an official image in \<open>handleApiRequest\<close> of this file is a 301
  redirect: when the image path has at least two parts and its first part has no
  \<open>.\<close>, no \<open>:\<close> and is not \<open>library\<close>, the client is sent to the request path with
  \<open>library\<close> inserted after \<open>/v2\<close>. The result is the new path, or \<open>None\<close> when
  the request is forwarded as it is.
\<close>

definition library_redirect :: "string \<Rightarrow> string \<Rightarrow> string option" where
  "library_redirect path finalImagePath =
     (let pathParts = split_char CHR ''/'' finalImagePath
      in if length pathParts \<ge> 2 \<and> \<not> js_includes (pathParts ! 0) ''.''
            \<and> \<not> js_includes (pathParts ! 0) '':'' \<and> pathParts ! 0 \<noteq> ''library''
         then (let newPathParts = split_char CHR ''/'' path
               in Some (join ''/'' (take 2 newPathParts @ [''library''] @ drop 2 newPathParts)))
         else None)"

section \<open>The gateway of \<open>src/index.js\<close>\<close>

text \<open>
  \<open>mergeConfigs([aiApis, registryApis])\<close>: every key of a group's \<open>config\<close> is stored
  under \<open>group.prefix + "/" + key\<close>. A group is its prefix and its keys with their
  configurations.
\<close>

definition mergeConfigs :: "(string \<times> (string \<times> config) list) list \<Rightarrow> (string \<times> config) list" where
  "mergeConfigs apiGroups =
     concat (map (\<lambda>(gprefix, cfg). map (\<lambda>(key, configItem). (gprefix @ ''/'' @ key, configItem)) cfg)
               apiGroups)"

definition aiApis :: "string \<times> (string \<times> config) list" where
  "aiApis = (''/ai'',
     [(''discord'', plain ''https://discord.com/api''),
      (''telegram'', plain ''https://api.telegram.org''),
      (''openai'', plain ''https://api.openai.com''),
      (''claude'',
         \<lparr>baseUrl = ''https://api.anthropic.com'', allowedHeaders = Some [''anthropic-version'']\<rparr>),
      (''gemini'',
         \<lparr>baseUrl = ''https://generativelanguage.googleapis.com'',
          allowedHeaders = Some [''x-goog-api-key'']\<rparr>),
      (''meta'', plain ''https://www.meta.ai/api''),
      (''groq'', plain ''https://api.groq.com/openai''),
      (''xai'', \<lparr>baseUrl = ''https://api.x.ai'', allowedHeaders = Some [''x-api-key'']\<rparr>),
      (''cohere'', plain ''https://api.cohere.ai''),
      (''huggingface'', plain ''https://api.huggingface.co''),
      (''together'', plain ''https://api.together.ai''),
      (''novita'', plain ''https://api.novita.ai''),
      (''portkey'', plain ''https://api.portkey.ai''),
      (''fireworks'', plain ''https://api.fireworks.ai''),
      (''openrouter'', plain ''https://openrouter.ai/api'')])"

definition registryApis :: "string \<times> (string \<times> config) list" where
  "registryApis = (''/registry'',
     [(''docker/elastic'', plain ''https://docker.elastic.co''),
      (''docker/hub'', plain ''https://docker.io''),
      (''google'', plain ''https://gcr.io''),
      (''github'', plain ''https://ghcr.io''),
      (''k8s'', plain ''https://registry.k8s.io''),
      (''microsoft'', plain ''https://mcr.microsoft.com''),
      (''nvidia'', plain ''https://nvcr.io''),
      (''quay'', plain ''https://quay.io''),
      (''ollama'', plain ''https://registry.ollama.ai'')])"

definition apiMapping :: "(string \<times> config) list" where
  "apiMapping = mergeConfigs [aiApis, registryApis]"

text \<open>
  \<open>extractPrefixAndRest\<close> of this file: the first prefix the normalised path starts
  with wins, and nothing is required after it. Without a match both components are
  \<open>null\<close>.
\<close>

fun first_prefix_loop :: "string \<Rightarrow> string list \<Rightarrow> string option \<times> string option" where
  "first_prefix_loop normalizedPath [] = (None, None)"
| "first_prefix_loop normalizedPath (p # ps) =
     (if prefix p normalizedPath
      then (Some p, Some (drop (length p) normalizedPath))
      else first_prefix_loop normalizedPath ps)"

definition extractPrefixAndRest_index ::
    "string \<Rightarrow> string list \<Rightarrow> string option \<times> string option" where
  "extractPrefixAndRest_index path pfxs =
     first_prefix_loop (if prefix ''/'' path then path else ''/'' @ path) pfxs"

text \<open>
  The request headers \<open>handleRequest\<close> of this file sends for a target that is not a
  registry: the four fixed names that the request has, then every entry whose
  lower-cased name is in the target's \<open>allowedHeaders\<close>.
\<close>

definition forward_headers_index :: "headers \<Rightarrow> string list \<Rightarrow> headers" where
  "forward_headers_index reqHeaders allowed =
     (let fixed =
            foldl (\<lambda>h key. if headers_has reqHeaders (toLowerCase key)
                            then headers_set h key (js_String (headers_get reqHeaders (toLowerCase key)))
                            else h)
              [] [''accept'', ''content-type'', ''authorization'', ''user-agent'']
      in foldl (\<lambda>h (key, v). if toLowerCase key \<in> set allowed then headers_set h key v else h)
           fixed reqHeaders)"

section \<open>Observations on headers and URLs\<close>

text \<open>All the values a header list holds under a name, compared without regard to case.\<close>

definition values_of :: "headers \<Rightarrow> string \<Rightarrow> string list" where
  "values_of h name = map snd (filter (\<lambda>(k, v). toLowerCase k = toLowerCase name) h)"

definition security_headers_set :: "headers \<Rightarrow> bool" where
  "security_headers_set h =
     (values_of h ''X-Content-Type-Options'' = [''nosniff'']
      \<and> values_of h ''X-Frame-Options'' = [''DENY'']
      \<and> values_of h ''Referrer-Policy'' = [''no-referrer''])"

text \<open>
  The host name of an absolute URL: the authority is the text between \<open>://\<close> and the
  next \<open>/\<close>, \<open>?\<close> or \<open>#\<close>; user information up to an \<open>@\<close> and a port after a
  \<open>:\<close> are not part of the host name.
\<close>

fun after_scheme :: "string \<Rightarrow> string option" where
  "after_scheme [] = None"
| "after_scheme (c # cs) = (if prefix ''://'' (c # cs) then Some (drop 3 (c # cs)) else after_scheme cs)"

definition url_hostname :: "string \<Rightarrow> string option" where
  "url_hostname u =
     (case after_scheme u of
        None \<Rightarrow> None
      | Some rest \<Rightarrow>
          (let authority = takeWhile (\<lambda>c. c \<notin> set ''/?#'') rest;
               hostport = rev (takeWhile (\<lambda>c. c \<noteq> CHR ''@'') (rev authority))
           in Some (takeWhile (\<lambda>c. c \<noteq> CHR '':'') hostport)))"

text \<open>
  A route table in which no prefix, followed by \<open>/\<close>, starts another one followed by
  \<open>/\<close>, and no prefix is empty: at most one entry can match a path.
\<close>

definition segment_free :: "string list \<Rightarrow> bool" where
  "segment_free ps =
     list_all (\<lambda>p. p \<noteq> [] \<and>
                 list_all (\<lambda>q. prefix (q @ ''/'') (p @ ''/'') \<or> prefix (p @ ''/'') (q @ ''/'')
                                \<longrightarrow> q = p) ps) ps"

text \<open>
  Every value of a \<open>realm="..."\<close> parameter of a challenge, from left to right: the
  matches of \<open>/realm="([^"]+)"/g\<close>.
\<close>

fun realms_of :: "string \<Rightarrow> string list" where
  "realms_of [] = []"
| \<open>realms_of (c # cs) =
     (case quoted_at ''realm="'' (c # cs) of
        Some m \<Rightarrow> m # realms_of cs
      | None \<Rightarrow> realms_of cs)\<close>

section \<open>Concrete requests and networks\<close>

definition example_request :: "string \<Rightarrow> (string \<times> string) list \<Rightarrow> headers \<Rightarrow> request" where
  "example_request path params hs =
     \<lparr>req_method = ''GET'',
      req_url = \<lparr>hostname = ''gw.example'', pathname = path, search = [], searchParams = params\<rparr>,
      req_headers = hs, req_body = None\<rparr>"

definition no_network :: network where
  "no_network fr = None"

text \<open>
  A registry that answers every request sent with \<open>redirect: 'manual'\<close> by a 307 to
  a blob store, which serves the blob.
\<close>

definition blob_response :: response where
  "blob_response = \<lparr>status = 200, statusText = ''OK'', res_headers = [], res_body = ''blob''\<rparr>"

definition redirecting_network :: network where
  "redirecting_network fr =
     (if f_redirect fr = manual
      then Some \<lparr>status = 307, statusText = ''Temporary Redirect'',
                 res_headers = [(''location'', ''https://blobs.example/sha256'')], res_body = []\<rparr>
      else Some blob_response)"

text \<open>
  A registry that answers 401 without a challenge, and one that answers 401 with the
  challenge Docker Hub sends.
\<close>

definition bare_401_network :: network where
  "bare_401_network fr =
     Some \<lparr>status = 401, statusText = ''Unauthorized'', res_headers = [], res_body = []\<rparr>"

definition hub_401_network :: network where
  \<open>hub_401_network fr =
     Some \<lparr>status = 401, statusText = ''Unauthorized'',
           res_headers =
             [(''www-authenticate'',
               ''Bearer realm="https://auth.docker.io/token",service="registry.docker.io"'')],
           res_body = []\<rparr>\<close>

text \<open>A URL interface for realms that have no query: the pairs are appended as they are.\<close>

definition plain_url :: url_interface where
  "plain_url realm params =
     Some (realm @ ''?'' @ join ''&'' (map (\<lambda>(k, v). k @ ''='' @ v) params))"


text \<open>An upstream whose answer already carries one of the three security headers.\<close>

definition framing_network :: network where
  "framing_network fr =
     Some \<lparr>status = 200, statusText = ''OK'',
           res_headers = [(''X-Frame-Options'', ''SAMEORIGIN'')], res_body = ''ok''\<rparr>"

section \<open>Basic facts\<close>

lemma truthy_Some [simp]: "truthy (Some s) = (s \<noteq> [])"
  by (simp add: truthy_def)

lemma truthy_None [simp]: "\<not> truthy None"
  by (simp add: truthy_def)

lemma js_String_Some [simp]: "js_String (Some s) = s"
  by (simp add: js_String_def)

lemma js_String_None [simp]: "js_String None = ''null''"
  by (simp add: js_String_def)

lemma toLowerCase_idem [simp]: "toLowerCase (toLowerCase s) = toLowerCase s"
  by (simp add: toLowerCase_def lower_char_def)

lemma header_names_lower:
  "toLowerCase ''X-Content-Type-Options'' = ''x-content-type-options''"
  "toLowerCase ''X-Frame-Options'' = ''x-frame-options''"
  "toLowerCase ''Referrer-Policy'' = ''referrer-policy''"
  "toLowerCase ''Content-Type'' = ''content-type''"
  "toLowerCase ''WWW-Authenticate'' = ''www-authenticate''"
  "toLowerCase ''Www-Authenticate'' = ''www-authenticate''"
  "toLowerCase ''Location'' = ''location''"
  "toLowerCase ''Authorization'' = ''authorization''"
  "toLowerCase ''authorization'' = ''authorization''"
  "toLowerCase ''host'' = ''host''"
  by (simp_all add: toLowerCase_def lower_char_def)

lemma js_includes_char: "js_includes s [c] \<longleftrightarrow> c \<in> set s"
  by (induction s) auto

section \<open>The prefix router\<close>

subsection \<open>Segment boundaries in the gateway with the token endpoint\<close>

lemma bestMatch_loop_only:
  assumes "\<forall>q\<in>set ps. (prefix (q @ ''/'') path \<or> path = q) \<longrightarrow> q = P"
    and "P \<noteq> []"
    and "prefix (P @ ''/'') path \<or> path = P"
    and "acc = None \<or> acc = Some P"
    and "P \<in> set ps \<or> acc = Some P"
  shows "bestMatch_loop path ps acc = Some P"
  using assms
proof (induction ps arbitrary: acc)
  case Nil
  then show ?case by auto
next
  case (Cons q qs)
  show ?case
  proof (cases "q = P")
    case True
    have "bestMatch_loop path (q # qs) acc = bestMatch_loop path qs (Some P)"
      using True Cons.prems(2,3,4) by (auto split: option.splits)
    also have "\<dots> = Some P"
      using Cons.prems by (intro Cons.IH) auto
    finally show ?thesis .
  next
    case False
    with Cons.prems(1) have "\<not> (prefix (q @ ''/'') path \<or> path = q)"
      by auto
    then have "bestMatch_loop path (q # qs) acc = bestMatch_loop path qs acc"
      by simp
    also have "\<dots> = Some P"
      using Cons.prems False by (intro Cons.IH) auto
    finally show ?thesis .
  qed
qed

lemma bestMatch_loop_sound:
  "bestMatch_loop path ps acc = Some b \<Longrightarrow> b \<noteq> [] \<Longrightarrow>
   acc = Some b \<or> (b \<in> set ps \<and> (prefix (b @ ''/'') path \<or> path = b))"
  by (induction ps arbitrary: acc) (auto split: if_splits option.splits)

lemma segment_free_tables:
  "segment_free (Object_keys registryConfigs)" "segment_free (Object_keys aiConfigs)"
  by (simp_all add: segment_free_def Object_keys_def registryConfigs_def aiConfigs_def)

lemma extractPrefixAndRest_separator:
  assumes "segment_free ps" and "P \<in> set ps"
  shows "extractPrefixAndRest (P @ ''/'' @ x) ps = (Some P, ''/'' @ x)"
proof -
  from assms have P: "P \<noteq> []"
    by (auto simp: segment_free_def list_all_iff)
  have only: "\<forall>q\<in>set ps. (prefix (q @ ''/'') (P @ ''/'' @ x) \<or> P @ ''/'' @ x = q) \<longrightarrow> q = P"
  proof (intro ballI impI)
    fix q
    assume q: "q \<in> set ps"
      and m: "prefix (q @ ''/'') (P @ ''/'' @ x) \<or> P @ ''/'' @ x = q"
    have "prefix (P @ ''/'') (P @ ''/'' @ x)"
      by simp
    moreover from m have "prefix (q @ ''/'') (P @ ''/'' @ x) \<or> prefix (P @ ''/'') (q @ ''/'')"
      by (auto simp: prefix_def)
    ultimately have "prefix (q @ ''/'') (P @ ''/'') \<or> prefix (P @ ''/'') (q @ ''/'')"
      using prefix_same_cases by blast
    with assms q show "q = P"
      by (auto simp: segment_free_def list_all_iff)
  qed
  have "bestMatch_loop (P @ ''/'' @ x) ps None = Some P"
    using only P assms(2) by (intro bestMatch_loop_only) auto
  then show ?thesis
    using P by (simp add: extractPrefixAndRest_def)
qed

lemma extractPrefixAndRest_boundary:
  assumes "extractPrefixAndRest path ps = (Some P, rest)"
  shows "P \<in> set ps \<and> (path = P \<or> prefix (P @ ''/'') path) \<and> rest = drop (length P) path"
  using assms bestMatch_loop_sound[of path ps None P]
  by (auto simp: extractPrefixAndRest_def split: option.splits if_splits)

lemma extractPrefixAndRest_no_separator:
  assumes "extractPrefixAndRest (P @ x) ps = (Some Q, rest)" and "x \<noteq> []" and "\<not> prefix ''/'' x"
  shows "Q \<noteq> P"
proof
  assume "Q = P"
  with extractPrefixAndRest_boundary[OF assms(1)]
  have "P @ x = P \<or> prefix (P @ ''/'') (P @ x)"
    by simp
  with assms(2,3) show False
    by auto
qed

text \<open>
  C1. For every configured prefix \<open>P\<close> a path \<open>P + "/x"\<close> resolves to \<open>P\<close> with the
  rest \<open>"/x"\<close>, and \<open>P + "x"\<close> without the separator never matches \<open>P\<close>. The gateway
  with the token endpoint does both (the three lemmas above). The router of
  \<open>src/index.js\<close> only tests \<open>startsWith(prefix)\<close>: it matches \<open>/ai/openai-x\<close> against
  the prefix \<open>/ai/openai\<close> and hands on the rest \<open>-x\<close>.
\<close>

theorem index_router_matches_inside_segment:
  "extractPrefixAndRest_index ''/ai/openai-x'' (Object_keys apiMapping)
     = (Some ''/ai/openai'', Some ''-x'')
   \<and> extractPrefixAndRest ''/ai/openai-x'' (Object_keys aiConfigs) = (None, ''/ai/openai-x'')"
  by code_simp

section \<open>The token endpoint\<close>




section \<open>Blob redirects\<close>

text \<open>
  C6. When Docker Hub answers the forwarded request with 307 or 302 and a \<open>Location\<close>
  header that names a URL (a value that is not empty), the gateway issues a second
  fetch, a GET to that URL with redirects followed, and what that fetch returns is what
  the client gets: the 307 itself is not passed on.
\<close>

theorem blob_redirect_chased:
  assumes "net \<lparr>f_url = DOCKER_HUB_URL @ ''/v2/''
                      @ (if prefix ''/'' imagePath then drop 1 imagePath else imagePath) @ srch,
                f_method = req_method req, f_headers = req_headers req,
                f_body = req_body req, f_redirect = manual\<rparr> = Some r"
    and "status r = 307 \<or> status r = 302"
    and "headers_get (res_headers r) ''Location'' = Some location"
    and "location \<noteq> []"
  shows "\<exists>forwarded chase.
           handleRegistryRequest net req DOCKER_HUB_URL imagePath srch
             = ([forwarded, chase], await_fetch net chase)
           \<and> f_url chase = location \<and> f_method chase = ''GET'' \<and> f_redirect chase = follow"
  using assms by (auto simp add: handleRegistryRequest_def Let_def)

theorem blob_redirect_chased_witness:
  "redirecting_network
     \<lparr>f_url = ''https://registry-1.docker.io/v2/library/busybox/blobs/sha256:0'',
      f_method = ''GET'', f_headers = [(''Authorization'', ''Bearer t'')], f_body = None,
      f_redirect = manual\<rparr>
     = Some \<lparr>status = 307, statusText = ''Temporary Redirect'',
             res_headers = [(''location'', ''https://blobs.example/sha256'')], res_body = []\<rparr>
   \<and> snd (handleRegistryRequest redirecting_network
            (example_request ''/v2/library/busybox/blobs/sha256:0'' []
               [(''Authorization'', ''Bearer t'')])
            DOCKER_HUB_URL ''library/busybox/blobs/sha256:0'' [])
       = Inr blob_response
   \<and> length (fst (handleRegistryRequest redirecting_network
            (example_request ''/v2/library/busybox/blobs/sha256:0'' []
               [(''Authorization'', ''Bearer t'')])
            DOCKER_HUB_URL ''library/busybox/blobs/sha256:0'' [])) = 2"
proof -
  let ?req = "example_request ''/v2/library/busybox/blobs/sha256:0'' []
                [(''Authorization'', ''Bearer t'')]"
  let ?r = "\<lparr>status = 307, statusText = ''Temporary Redirect'',
             res_headers = [(''location'', ''https://blobs.example/sha256'')], res_body = []\<rparr>"
  have h0: "redirecting_network
     \<lparr>f_url = ''https://registry-1.docker.io/v2/library/busybox/blobs/sha256:0'',
      f_method = ''GET'', f_headers = [(''Authorization'', ''Bearer t'')], f_body = None,
      f_redirect = manual\<rparr> = Some ?r"
    by (simp add: redirecting_network_def)
  then have h1: "redirecting_network
              \<lparr>f_url = DOCKER_HUB_URL @ ''/v2/''
                  @ (if prefix ''/'' ''library/busybox/blobs/sha256:0''
                     then drop 1 ''library/busybox/blobs/sha256:0''
                     else ''library/busybox/blobs/sha256:0'') @ [],
               f_method = req_method ?req, f_headers = req_headers ?req,
               f_body = req_body ?req, f_redirect = manual\<rparr> = Some ?r"
    by (simp add: example_request_def DOCKER_HUB_URL_def)
  have h2: "status ?r = 307 \<or> status ?r = 302"
    by simp
  have h3: "headers_get (res_headers ?r) ''Location'' = Some ''https://blobs.example/sha256''"
    by (simp add: headers_get_def toLowerCase_def lower_char_def)
  have h4: "''https://blobs.example/sha256'' \<noteq> []"
    by simp
  from blob_redirect_chased[where net = redirecting_network and req = "?req" and r = "?r"
      and imagePath = "''library/busybox/blobs/sha256:0''" and srch = "[]"
      and location = "''https://blobs.example/sha256''", OF h1 h2 h3 h4]
  obtain forwarded chase where
    eq: "handleRegistryRequest redirecting_network ?req DOCKER_HUB_URL
           ''library/busybox/blobs/sha256:0'' []
         = ([forwarded, chase], await_fetch redirecting_network chase)"
    and ch: "f_redirect chase = follow"
    by blast
  from ch have "await_fetch redirecting_network chase = Inr blob_response"
    by (simp add: await_fetch_def redirecting_network_def)
  with eq h0 show ?thesis
    by simp
qed

text \<open>
  C9. The fetch that chases the redirect has the method GET and no headers at all, so
  nothing of the client's request (its method, its \<open>Authorization\<close> header) reaches
  the pre-signed URL.
\<close>

theorem blob_redirect_fetch_is_bare:
  assumes "net \<lparr>f_url = DOCKER_HUB_URL @ ''/v2/''
                      @ (if prefix ''/'' imagePath then drop 1 imagePath else imagePath) @ srch,
                f_method = req_method req, f_headers = req_headers req,
                f_body = req_body req, f_redirect = manual\<rparr> = Some r"
    and "status r = 307 \<or> status r = 302"
    and "headers_get (res_headers r) ''Location'' = Some location"
    and "location \<noteq> []"
  shows "f_url (last (fst (handleRegistryRequest net req DOCKER_HUB_URL imagePath srch))) = location
       \<and> f_method (last (fst (handleRegistryRequest net req DOCKER_HUB_URL imagePath srch))) = ''GET''
       \<and> f_headers (last (fst (handleRegistryRequest net req DOCKER_HUB_URL imagePath srch))) = []
       \<and> f_body (last (fst (handleRegistryRequest net req DOCKER_HUB_URL imagePath srch))) = None"
  using assms by (auto simp add: handleRegistryRequest_def Let_def)


theorem blob_redirect_fetch_is_bare_witness:
  "redirecting_network
     \<lparr>f_url = ''https://registry-1.docker.io/v2/library/busybox/blobs/sha256:0'',
      f_method = ''HEAD'', f_headers = [(''Authorization'', ''Bearer t'')], f_body = None,
      f_redirect = manual\<rparr>
     = Some \<lparr>status = 307, statusText = ''Temporary Redirect'',
             res_headers = [(''location'', ''https://blobs.example/sha256'')], res_body = []\<rparr>
   \<and> last (fst (handleRegistryRequest redirecting_network
            ((example_request ''/v2/library/busybox/blobs/sha256:0'' []
               [(''Authorization'', ''Bearer t'')])\<lparr>req_method := ''HEAD''\<rparr>)
            DOCKER_HUB_URL ''library/busybox/blobs/sha256:0'' []))
     = \<lparr>f_url = ''https://blobs.example/sha256'', f_method = ''GET'', f_headers = [],
        f_body = None, f_redirect = follow\<rparr>"
proof -
  let ?req = "(example_request ''/v2/library/busybox/blobs/sha256:0'' []
                [(''Authorization'', ''Bearer t'')])\<lparr>req_method := ''HEAD''\<rparr>"
  let ?r = "\<lparr>status = 307, statusText = ''Temporary Redirect'',
             res_headers = [(''location'', ''https://blobs.example/sha256'')], res_body = []\<rparr>"
  have h0: "redirecting_network
     \<lparr>f_url = ''https://registry-1.docker.io/v2/library/busybox/blobs/sha256:0'',
      f_method = ''HEAD'', f_headers = [(''Authorization'', ''Bearer t'')], f_body = None,
      f_redirect = manual\<rparr> = Some ?r"
    by (simp add: redirecting_network_def)
  then have h1: "redirecting_network
              \<lparr>f_url = DOCKER_HUB_URL @ ''/v2/''
                  @ (if prefix ''/'' ''library/busybox/blobs/sha256:0''
                     then drop 1 ''library/busybox/blobs/sha256:0''
                     else ''library/busybox/blobs/sha256:0'') @ [],
               f_method = req_method ?req, f_headers = req_headers ?req,
               f_body = req_body ?req, f_redirect = manual\<rparr> = Some ?r"
    by (simp add: example_request_def DOCKER_HUB_URL_def)
  have h2: "status ?r = 307 \<or> status ?r = 302"
    by simp
  have h3: "headers_get (res_headers ?r) ''Location'' = Some ''https://blobs.example/sha256''"
    by (simp add: headers_get_def toLowerCase_def lower_char_def)
  have h4: "''https://blobs.example/sha256'' \<noteq> []"
    by simp
  let ?chase = "last (fst (handleRegistryRequest redirecting_network ?req DOCKER_HUB_URL
                  ''library/busybox/blobs/sha256:0'' []))"
  from blob_redirect_fetch_is_bare[where net = redirecting_network and req = "?req" and r = "?r"
      and imagePath = "''library/busybox/blobs/sha256:0''" and srch = "[]"
      and location = "''https://blobs.example/sha256''", OF h1 h2 h3 h4]
  have b: "f_url ?chase = ''https://blobs.example/sha256''" "f_method ?chase = ''GET''"
    "f_headers ?chase = []" "f_body ?chase = None"
    by simp_all
  have "f_redirect ?chase = follow"
    using h1 h3 by (simp add: handleRegistryRequest_def Let_def)
  with b have "?chase = \<lparr>f_url = ''https://blobs.example/sha256'', f_method = ''GET'',
      f_headers = [], f_body = None, f_redirect = follow\<rparr>"
    by (cases ?chase) simp
  with h0 show ?thesis
    by simp
qed

section \<open>The header filter\<close>

lemma headers_set_names:
  "fst ` set h \<subseteq> A \<Longrightarrow> toLowerCase k \<in> A \<Longrightarrow> fst ` set (headers_set h k v) \<subseteq> A"
  by (auto simp: headers_set_def headers_delete_def)

lemma allow_loop_names:
  "fst ` set h \<subseteq> A \<Longrightarrow> set allowed \<subseteq> A \<Longrightarrow>
   fst ` set (foldl (\<lambda>h (key, v). if toLowerCase key \<in> set allowed
                                    then headers_set h key v else h) h entries) \<subseteq> A"
proof (induction entries arbitrary: h)
  case Nil
  then show ?case by simp
next
  case (Cons e es)
  obtain k v where e: "e = (k, v)"
    by (cases e)
  show ?case
  proof (cases "toLowerCase k \<in> set allowed")
    case True
    with Cons.prems have "fst ` set (headers_set h k v) \<subseteq> A"
      by (intro headers_set_names) auto
    from Cons.IH[OF this Cons.prems(2)] show ?thesis
      using True by (simp add: e)
  next
    case False
    from Cons.IH[OF Cons.prems] show ?thesis
      using False by (simp add: e)
  qed
qed

lemma fixed_loop_names:
  "fst ` set h \<subseteq> A \<Longrightarrow> toLowerCase ` set ks \<subseteq> A \<Longrightarrow>
   fst ` set (foldl (\<lambda>h key. if headers_has reqHeaders (toLowerCase key)
                  then headers_set h key (js_String (headers_get reqHeaders (toLowerCase key)))
                  else h) h ks) \<subseteq> A"
proof (induction ks arbitrary: h)
  case Nil
  then show ?case by simp
next
  case (Cons k ks)
  show ?case
  proof (cases "headers_has reqHeaders (toLowerCase k)")
    case True
    with Cons.prems
    have "fst ` set (headers_set h k (js_String (headers_get reqHeaders (toLowerCase k)))) \<subseteq> A"
      by (intro headers_set_names) auto
    from Cons.IH[OF this] Cons.prems(2) show ?thesis
      using True by simp
  next
    case False
    from Cons.IH[OF Cons.prems(1)] Cons.prems(2) show ?thesis
      using False by simp
  qed
qed

lemma headers_get_None_iff:
  "headers_get h name = None \<longleftrightarrow> toLowerCase name \<notin> toLowerCase ` fst ` set h"
  by (force simp: headers_get_def map_of_eq_None_iff image_iff)

lemma filter_headers_names:
  "fst ` set (filter_headers combined entries) \<subseteq> set combined"
  unfolding filter_headers_def by (rule allow_loop_names) simp_all

lemma forward_headers_index_names:
  "fst ` set (forward_headers_index reqHeaders allowed) \<subseteq> set (DEFAULT_HEADERS @ allowed)"
proof -
  have low: "toLowerCase ` set [''accept'', ''content-type'', ''authorization'', ''user-agent'']
               \<subseteq> set (DEFAULT_HEADERS @ allowed)"
    by (simp add: DEFAULT_HEADERS_def toLowerCase_def lower_char_def)
  show ?thesis
    unfolding forward_headers_index_def Let_def
    by (rule allow_loop_names, rule fixed_loop_names) (use low in simp_all)
qed

text \<open>
  C8. Whatever headers a generic request carries, every header name the gateway
  forwards upstream is an element of the default set joined with the target's
  allow-list, and a name that is outside that union, however it is capitalised, is
  not found among the forwarded headers. This holds for \<open>handleGenericApiRequest\<close> and
  for the header loops of \<open>src/index.js\<close>.
\<close>

theorem forwarded_headers_within_allow_list:
  "(\<forall>fr \<in> set (fst (handleGenericApiRequest net req base restPath srch allowed)).
      fst ` set (f_headers fr)
        \<subseteq> set (DEFAULT_HEADERS @ (case allowed of None \<Rightarrow> [] | Some l \<Rightarrow> l))
      \<and> (\<forall>name. toLowerCase name
                    \<notin> toLowerCase ` set (DEFAULT_HEADERS @ (case allowed of None \<Rightarrow> [] | Some l \<Rightarrow> l))
            \<longrightarrow> headers_get (f_headers fr) name = None))
   \<and> fst ` set (forward_headers_index (req_headers req) extra) \<subseteq> set (DEFAULT_HEADERS @ extra)
   \<and> (\<forall>name. toLowerCase name \<notin> toLowerCase ` set (DEFAULT_HEADERS @ extra)
         \<longrightarrow> headers_get (forward_headers_index (req_headers req) extra) name = None)"
proof -
  let ?union = "DEFAULT_HEADERS @ (case allowed of None \<Rightarrow> [] | Some l \<Rightarrow> l)"
  have a: "fst ` set (filter_headers ?union (req_headers req)) \<subseteq> set ?union"
    by (rule filter_headers_names)
  have b: "fst ` set (forward_headers_index (req_headers req) extra) \<subseteq> set (DEFAULT_HEADERS @ extra)"
    by (rule forward_headers_index_names)
  have drop: "headers_get h name = None"
    if "fst ` set h \<subseteq> set u" and "toLowerCase name \<notin> toLowerCase ` set u" for h u name
    using that unfolding headers_get_None_iff by blast
  show ?thesis
    using a b drop[OF a] drop[OF b]
    by (simp add: handleGenericApiRequest_def Let_def)
qed

theorem forwarded_headers_within_allow_list_witness:
  "map f_headers (fst (handleGenericApiRequest no_network
       (example_request ''/ai/claude/v1/messages'' []
          [(''Content-Type'', ''application/json''), (''Authorization'', ''Bearer k''),
           (''Anthropic-Version'', ''2023-06-01''), (''X-Random'', ''1''), (''Cookie'', ''c'')])
       ''https://api.anthropic.com'' ''/v1/messages'' [] (Some [''anthropic-version''])))
   = [[(''content-type'', ''application/json''), (''authorization'', ''Bearer k''),
       (''anthropic-version'', ''2023-06-01'')]]
   \<and> headers_get (forward_headers_index
         [(''Content-Type'', ''application/json''), (''Authorization'', ''Bearer k''),
          (''Anthropic-Version'', ''2023-06-01''), (''X-Random'', ''1''), (''Cookie'', ''c'')]
         [''anthropic-version'']) ''Cookie'' = None"
proof -
  let ?hs = "[(''Content-Type'', ''application/json''), (''Authorization'', ''Bearer k''),
           (''Anthropic-Version'', ''2023-06-01''), (''X-Random'', ''1''), (''Cookie'', ''c'')]"
  let ?req = "example_request ''/ai/claude/v1/messages'' [] ?hs"
  have c: "toLowerCase ''Cookie'' \<notin> toLowerCase ` set (DEFAULT_HEADERS @ [''anthropic-version''])"
    by (simp add: DEFAULT_HEADERS_def toLowerCase_def lower_char_def)
  have r: "req_headers ?req = ?hs"
    by (simp add: example_request_def)
  have 1: "headers_get (forward_headers_index ?hs [''anthropic-version'']) ''Cookie'' = None"
    using forwarded_headers_within_allow_list[of no_network ?req "''https://api.anthropic.com''"
        "''/v1/messages''" "[]" "Some [''anthropic-version'']" "[''anthropic-version'']"] c r
    by simp
  have 2: "map f_headers (fst (handleGenericApiRequest no_network ?req
       ''https://api.anthropic.com'' ''/v1/messages'' [] (Some [''anthropic-version''])))
   = [[(''content-type'', ''application/json''), (''authorization'', ''Bearer k''),
       (''anthropic-version'', ''2023-06-01'')]]"
    by (simp add: handleGenericApiRequest_def Let_def example_request_def filter_headers_def
        DEFAULT_HEADERS_def headers_set_def headers_delete_def toLowerCase_def lower_char_def)
  from 1 2 show ?thesis
    by simp
qed

section \<open>Security headers\<close>

lemma values_of_headers_set:
  "values_of (headers_set h k v) name =
     (if toLowerCase name = toLowerCase k then [v] else values_of h name)"
proof -
  have keep: "filter (\<lambda>(k', v'). toLowerCase k' = toLowerCase name)
                (filter (\<lambda>(k', v'). toLowerCase k' \<noteq> toLowerCase k) h) =
              (if toLowerCase name = toLowerCase k then []
               else filter (\<lambda>(k', v'). toLowerCase k' = toLowerCase name) h)"
    by (induction h) auto
  show ?thesis
    unfolding values_of_def headers_set_def headers_delete_def
    by (simp del: filter_filter add: keep)
qed

lemma addSecurityHeaders_sets: "security_headers_set (addSecurityHeaders h)"
  by (simp add: security_headers_set_def addSecurityHeaders_def values_of_headers_set
      header_names_lower)

lemma generic_secured:
  "snd (handleGenericApiRequest net req base restPath srch allowed) = Inr resp \<Longrightarrow>
   security_headers_set (res_headers resp)"
  by (auto simp: handleGenericApiRequest_def Let_def secured_def addSecurityHeaders_sets
      split: option.splits)

lemma registry_pass_through_secured:
  assumes "snd (handleRegistryRequest net req base imagePath srch) = Inr resp"
    and "length (fst (handleRegistryRequest net req base imagePath srch)) = 1"
    and "status resp \<noteq> 401"
  shows "security_headers_set (res_headers resp)"
proof -
  let ?newReq = "\<lparr>f_url = base @ ''/v2/''
                     @ (if prefix ''/'' imagePath then drop 1 imagePath else imagePath) @ srch,
                   f_method = req_method req, f_headers = req_headers req,
                   f_body = req_body req, f_redirect = manual\<rparr>"
  show ?thesis
  proof (cases "net ?newReq")
    case None
    with assms(1) show ?thesis
      by (simp add: handleRegistryRequest_def Let_def)
  next
    case (Some r)
    show ?thesis
    proof (cases "status r = 401")
      case True
      with Some assms(1,3) show ?thesis
        by (auto simp add: handleRegistryRequest_def Let_def responseUnauthorized_def
            split: prod.splits)
    next
      case False
      show ?thesis
      proof (cases "base = DOCKER_HUB_URL \<and> (status r = 307 \<or> status r = 302)
                     \<and> truthy (headers_get (res_headers r) ''Location'')")
        case True
        with Some False assms(2) show ?thesis
          by (simp add: handleRegistryRequest_def Let_def)
      next
        case no_chase: False
        with Some False assms(1) have "resp = secured r"
          by (auto simp add: handleRegistryRequest_def Let_def)
        then show ?thesis
          by (simp add: secured_def addSecurityHeaders_sets)
      qed
    qed
  qed
qed

text \<open>
  C2, as stated, fails: the 404 for an unknown path, the static landing page, the
  rewritten 401 challenge and the chased blob leave the gateway without the three
  headers, and a token response is relayed with the upstream's own
  \<open>X-Frame-Options\<close> value.
\<close>

theorem responses_without_security_headers:
  "snd (handleRequest no_network (example_request ''/foo/bar'' [] [])) = Inr not_found
   \<and> res_headers not_found = [(''content-type'', ''application/json'')]
   \<and> \<not> security_headers_set (res_headers not_found)
   \<and> snd (handleRequest no_network (example_request ''/'' [] []))
       = Inr (static_response ''Service is running!'' ''text/html; charset=utf-8'')
   \<and> values_of (res_headers (static_response ''Service is running!'' ''text/html; charset=utf-8''))
        ''X-Frame-Options'' = []
   \<and> map_option (\<lambda>resp. map fst (res_headers resp))
        (case snd (handleRequest bare_401_network (example_request ''/v2/'' [] [])) of
           Inl e \<Rightarrow> None | Inr resp \<Rightarrow> Some resp)
       = Some [''content-type'', ''www-authenticate'']
   \<and> snd (handleRequest redirecting_network
            (example_request ''/v2/library/busybox/blobs/sha256:0'' [] []))
       = Inr blob_response
   \<and> res_headers blob_response = []
   \<and> snd (handleRequest framing_network (example_request ''/v2/token'' [] []))
       = Inr \<lparr>status = 200, statusText = ''OK'',
              res_headers = [(''X-Frame-Options'', ''SAMEORIGIN'')], res_body = ''ok''\<rparr>"
  by code_simp

text \<open>
  C2, amended. The three security headers are set, each with the gateway's value as
  its only value, on every response the gateway builds from a forwarded upstream
  response: every response of \<open>handleGenericApiRequest\<close>, and the response of
  \<open>handleRegistryRequest\<close> when it passes the upstream answer on (one fetch was issued
  and the answer is not the rewritten 401).
\<close>

theorem security_headers_on_forwarded_responses:
  "(\<forall>resp. snd (handleGenericApiRequest net req base restPath srch allowed) = Inr resp
        \<longrightarrow> security_headers_set (res_headers resp))
   \<and> (\<forall>resp. snd (handleRegistryRequest net req base imagePath srch) = Inr resp
          \<and> length (fst (handleRegistryRequest net req base imagePath srch)) = 1
          \<and> status resp \<noteq> 401
        \<longrightarrow> security_headers_set (res_headers resp))"
  using generic_secured registry_pass_through_secured by blast

theorem security_headers_on_forwarded_responses_witness:
  "snd (handleGenericApiRequest framing_network (example_request ''/ai/openai/v1/models'' [] [])
          ''https://api.openai.com'' ''/v1/models'' [] None)
     = Inr \<lparr>status = 200, statusText = ''OK'',
            res_headers = [(''x-content-type-options'', ''nosniff''), (''x-frame-options'', ''DENY''),
                           (''referrer-policy'', ''no-referrer'')],
            res_body = ''ok''\<rparr>
   \<and> security_headers_set [(''x-content-type-options'', ''nosniff''), (''x-frame-options'', ''DENY''),
                           (''referrer-policy'', ''no-referrer'')]
   \<and> values_of [(''x-content-type-options'', ''nosniff''), (''x-frame-options'', ''DENY''),
                (''referrer-policy'', ''no-referrer'')] ''X-Frame-Options'' = [''DENY'']"
proof -
  let ?out = "handleGenericApiRequest framing_network (example_request ''/ai/openai/v1/models'' [] [])
          ''https://api.openai.com'' ''/v1/models'' [] None"
  let ?resp = "\<lparr>status = 200, statusText = ''OK'',
            res_headers = [(''x-content-type-options'', ''nosniff''), (''x-frame-options'', ''DENY''),
                           (''referrer-policy'', ''no-referrer'')],
            res_body = ''ok''\<rparr>"
  have e: "snd ?out = Inr ?resp"
    by (simp add: handleGenericApiRequest_def Let_def framing_network_def secured_def
        addSecurityHeaders_def headers_set_def headers_delete_def toLowerCase_def lower_char_def)
  with security_headers_on_forwarded_responses[of framing_network
      "example_request ''/ai/openai/v1/models'' [] []" "''https://api.openai.com''"
      "''/v1/models''" "[]" None]
  have s: "security_headers_set (res_headers ?resp)"
    by blast
  then have "values_of (res_headers ?resp) ''X-Frame-Options'' = [''DENY'']"
    by (simp add: security_headers_set_def)
  with e s show ?thesis
    by simp
qed

section \<open>The rewritten challenge\<close>

lemma headers_get_headers_set:
  "headers_get (headers_set h k v) name =
     (if toLowerCase name = toLowerCase k then Some v else headers_get h name)"
proof -
  let ?low = "map (\<lambda>(k, v). (toLowerCase k, v))"
  have absent: "map_of (?low (filter (\<lambda>(k', v'). toLowerCase k' \<noteq> toLowerCase k) h)) (toLowerCase k) = None"
    by (induction h) auto
  have other: "map_of (?low (filter (\<lambda>(k', v'). toLowerCase k' \<noteq> toLowerCase k) h)) n = map_of (?low h) n"
    if "n \<noteq> toLowerCase k" for n
    using that by (induction h) auto
  show ?thesis
    unfolding headers_get_def headers_set_def headers_delete_def
    by (auto simp: map_add_def absent other split: option.splits)
qed

lemma responseUnauthorized_status [simp]:
  "status (responseUnauthorized u authHeader img) = 401"
  by (simp add: responseUnauthorized_def Let_def split: prod.splits)

lemma responseUnauthorized_single_status [simp]:
  "status (responseUnauthorized_single u authHeader) = 401"
  by (simp add: responseUnauthorized_single_def unauthorized_with_def split: prod.splits option.splits)

lemma responseUnauthorized_challenge:
  \<open>headers_get (res_headers (responseUnauthorized u authHeader img)) ''WWW-Authenticate'' =
     Some (''Bearer realm="https://'' @ hostname u @ ''/v2/token",service="''
           @ fst (parse_challenge authHeader) @ ''",scope="''
           @ infer_scope authHeader (fst (parse_challenge authHeader))
               (fst (snd (parse_challenge authHeader))) img
           @ ''"''
           @ (if snd (snd (parse_challenge authHeader)) \<noteq> []
              then '','' @ join '','' (snd (snd (parse_challenge authHeader))) else []))\<close>
  by (simp add: responseUnauthorized_def Let_def headers_get_headers_set header_names_lower
      split: prod.splits)






lemma regex_quoted_here:
  assumes "quoted_at lit s = Some m"
  shows "regex_quoted lit s = Some m"
  using assms by (cases s) (auto simp: quoted_at_def split: if_splits)

lemma quoted_at_value:
  assumes "CHR 0x22 \<notin> set v" and "v \<noteq> []"
  shows "quoted_at lit (lit @ v @ CHR 0x22 # rest) = Some v"
proof -
  have "takeWhile (\<lambda>c. c \<noteq> CHR 0x22) (v @ CHR 0x22 # rest) = v"
    using assms(1) by (induction v) auto
  with assms(2) show ?thesis
    by (simp add: quoted_at_def Let_def)
qed

lemma realmRegex_challenge:
  assumes "CHR 0x22 \<notin> set v" and "v \<noteq> []"
  shows \<open>realmRegex (''Bearer realm="'' @ v @ CHR 0x22 # rest) = Some v\<close>
proof -
  have here: \<open>regex_quoted ''realm="'' (''realm="'' @ v @ CHR 0x22 # rest) = Some v\<close>
    using quoted_at_value[OF assms] by (rule regex_quoted_here)
  have skip: \<open>regex_quoted ''realm="'' (''Bearer '' @ s) = regex_quoted ''realm="'' s\<close> for s
    by (simp add: quoted_at_def)
  have \<open>''Bearer realm="'' @ v @ CHR 0x22 # rest = ''Bearer '' @ (''realm="'' @ v @ CHR 0x22 # rest)\<close>
    by simp
  then show ?thesis
    unfolding realmRegex_def using skip here by metis
qed

lemma url_hostname_https:
  assumes "set h \<inter> set ''/?#@:'' = {}"
  shows "url_hostname (''https://'' @ h @ ''/v2/token'') = Some h"
proof -
  have a: "takeWhile (\<lambda>c. c \<noteq> CHR ''/'' \<and> c \<noteq> CHR ''?'' \<and> c \<noteq> CHR ''#'') (h @ ''/v2/token'') = h"
    using assms by (induction h) auto
  have b: "takeWhile (\<lambda>c. c \<noteq> CHR ''@'') (rev h) = rev h"
    using assms by (intro takeWhile_eq_all_conv[THEN iffD2]) auto
  have c: "takeWhile (\<lambda>c. c \<noteq> CHR '':'') h = h"
    using assms by (intro takeWhile_eq_all_conv[THEN iffD2]) auto
  show ?thesis
    by (simp add: url_hostname_def Let_def a b c)
qed

lemma ping_unauthorized:
  assumes "pathname (req_url req) = ''/v2/''"
    and "net \<lparr>f_url = DOCKER_HUB_URL @ ''/v2/'', f_method = req_method req,
                f_headers = req_headers req, f_body = None, f_redirect = manual\<rparr> = Some r"
    and "status r = 401"
  shows "snd (handleRequest net req) =
           Inr (responseUnauthorized (req_url req)
                  (headers_get (res_headers r) ''Www-Authenticate'') None)"
  using assms by (simp add: handleRequest_def handleApiRequest_def Let_def)

text \<open>
  Whatever the upstream's challenge, the first \<open>realm="..."\<close> of the challenge that a
  ping gets back is the gateway's token endpoint, and its host name is the one of the
  client's request. The host name is taken to be one: it has none of the delimiters
  \<open>/ ? # @ : "\<close>.
\<close>

lemma ping_challenge_first_realm:
  assumes "pathname (req_url req) = ''/v2/''"
    and "net \<lparr>f_url = DOCKER_HUB_URL @ ''/v2/'', f_method = req_method req,
                f_headers = req_headers req, f_body = None, f_redirect = manual\<rparr> = Some r"
    and "status r = 401"
    and \<open>set (hostname (req_url req)) \<inter> set ''/?#@:"'' = {}\<close>
  shows "\<exists>resp challenge.
            snd (handleRequest net req) = Inr resp \<and> status resp = 401
            \<and> headers_get (res_headers resp) ''WWW-Authenticate'' = Some challenge
            \<and> realmRegex challenge = Some (''https://'' @ hostname (req_url req) @ ''/v2/token'')"
    and "url_hostname (''https://'' @ hostname (req_url req) @ ''/v2/token'')
            = Some (hostname (req_url req))"
proof -
  let ?h = "hostname (req_url req)"
  let ?realm = "''https://'' @ ?h @ ''/v2/token''"
  from assms(4) have q: "CHR 0x22 \<notin> set ?realm" and ne: "?realm \<noteq> []"
    by auto
  have realm: \<open>realmRegex (''Bearer realm="'' @ ?realm @ CHR 0x22 # rest) = Some ?realm\<close> for rest
    using realmRegex_challenge[OF q ne] by simp
  let ?resp = "responseUnauthorized (req_url req) (headers_get (res_headers r) ''Www-Authenticate'') None"
  obtain challenge where ch: "headers_get (res_headers ?resp) ''WWW-Authenticate'' = Some challenge"
    and shape: \<open>\<exists>rest. challenge = ''Bearer realm="'' @ ?realm @ CHR 0x22 # rest\<close>
    by (simp add: responseUnauthorized_challenge)
  from shape realm have "realmRegex challenge = Some ?realm"
    by auto
  with ch ping_unauthorized[where net = net and req = req and r = r, OF assms(1-3)]
  show "\<exists>resp challenge.
            snd (handleRequest net req) = Inr resp \<and> status resp = 401
            \<and> headers_get (res_headers resp) ''WWW-Authenticate'' = Some challenge
            \<and> realmRegex challenge = Some ?realm"
    by auto
  from assms(4) have "set ?h \<inter> set ''/?#@:'' = {}"
    by auto
  then show "url_hostname ?realm = Some ?h"
    by (rule url_hostname_https)
qed

text \<open>
  C4. A ping that Docker Hub answers with 401 and its usual challenge
  \<open>Bearer realm="https://auth.docker.io/token",service="registry.docker.io"\<close> gets a
  challenge that names two realms: the gateway's token endpoint first and, after the
  scope, the upstream's. \<open>responseUnauthorized\<close> means to drop the upstream's realm
  (\<open>Ignore original realm\<close>), but it looks for a part that starts with \<open>realm="\<close>
  and the part is \<open>Bearer realm="..."\<close>, so the part is kept among the other
  parameters. \<open>responseUnauthorized\<close> of the file with one route table, given the same
  challenge, names the gateway's realm alone.
\<close>

theorem ping_challenge_keeps_upstream_realm:
  \<open>snd (handleRequest hub_401_network (example_request ''/v2/'' [] []))
     = Inr \<lparr>status = 401, statusText = [],
            res_headers =
              [(''content-type'', ''application/json''),
               (''www-authenticate'',
                ''Bearer realm="https://gw.example/v2/token",service="registry.docker.io",''
                @ ''scope="repository:*:pull",Bearer realm="https://auth.docker.io/token"'')],
            res_body = ''{"error":"Unauthorized"}''\<rparr>
   \<and> map url_hostname
        (realms_of (''Bearer realm="https://gw.example/v2/token",service="registry.docker.io",''
                    @ ''scope="repository:*:pull",Bearer realm="https://auth.docker.io/token"''))
       = [Some ''gw.example'', Some ''auth.docker.io'']
   \<and> map url_hostname
        (realms_of (js_String (headers_get
           (res_headers (responseUnauthorized_single (req_url (example_request ''/v2/'' [] []))
              (Some ''Bearer realm="https://auth.docker.io/token",service="registry.docker.io"'')))
           ''WWW-Authenticate'')))
       = [Some ''gw.example'']\<close>
  by code_simp













section \<open>The scope of a token request\<close>

lemma auth_relay_rewrites_scope:
  assumes "searchParams_get (req_url req) ''service'' = Some ''cloudflare-docker-proxy''"
    and "searchParams_get (req_url req) ''scope'' = Some ''repository:busybox:pull''"
    and "headers_get (req_headers req) ''Authorization'' = None"
    and "net \<lparr>f_url = DOCKER_HUB_URL @ ''/v2/'', f_method = ''GET'', f_headers = [],
                f_body = None, f_redirect = manual\<rparr> = Some pingResp"
    and "headers_get (res_headers pingResp) ''WWW-Authenticate'' = Some h"
    and "parseAuthenticate h = Inr w"
    and "wa_service w \<noteq> []"
    and "to_url (wa_realm w)
           [(''service'', wa_service w), (''scope'', ''repository:library/busybox:pull'')] = Some u"
  shows "handleAuthRequest to_url net req =
           ([\<lparr>f_url = DOCKER_HUB_URL @ ''/v2/'', f_method = ''GET'', f_headers = [],
              f_body = None, f_redirect = manual\<rparr>,
             \<lparr>f_url = u, f_method = ''GET'', f_headers = [], f_body = None, f_redirect = follow\<rparr>],
            await_fetch net \<lparr>f_url = u, f_method = ''GET'', f_headers = [], f_body = None,
                              f_redirect = follow\<rparr>)"
proof -
  have params: "handleAuthRequest_params req
                  = (Some ''registry.docker.io'', Some ''repository:library/busybox:pull'')"
    using assms(1,2) by (simp add: handleAuthRequest_params_def Let_def)
  have h: "h \<noteq> []"
    using assms(6) by (auto simp: parseAuthenticate_def)
  show ?thesis
    using assms(3-8) h
    by (simp add: handleAuthRequest_def params Let_def fetchToken_def)
qed

text \<open>
  C3. A token request for \<open>repository:busybox:pull\<close> is to be relayed with the scope
  \<open>repository:library/busybox:pull\<close>. \<open>handleAuthRequest\<close> of the gateway with the
  \<open>/v2/auth\<close> endpoint rewrites the scope so (lemma \<open>auth_relay_rewrites_scope\<close>; in
  the second URL below the query is written by \<open>plain_url\<close>, without percent-encoding).
  \<open>handleTokenRequest\<close> of the gateway with the \<open>/v2/token\<close> endpoint relays the scope
  it was given, percent-encoded and without the namespace.
\<close>

theorem token_handler_relays_scope_unchanged:
  "map f_url (fst (handleRequest no_network
       (example_request ''/v2/token''
          [(''service'', ''registry.docker.io''), (''scope'', ''repository:busybox:pull'')] [])))
     = [''https://auth.docker.io/token?service=registry.docker.io&scope=repository%3Abusybox%3Apull'']
   \<and> map f_url (fst (handleAuthRequest plain_url hub_401_network
       (example_request ''/v2/auth''
          [(''service'', ''cloudflare-docker-proxy''), (''scope'', ''repository:busybox:pull'')] [])))
     = [''https://registry-1.docker.io/v2/'',
        ''https://auth.docker.io/token?service=registry.docker.io&scope=repository:library/busybox:pull'']"
  by code_simp

section \<open>Official images of Docker Hub\<close>

lemma split_first_prefix: "prefix (split_first sep s) s"
  by (induction s) auto

lemma split_first_cases:
  "split_first sep s = s \<or> (\<exists>rest. s = split_first sep s @ sep @ rest)"
proof (induction s)
  case Nil
  then show ?case by simp
next
  case (Cons c cs)
  show ?case
  proof (cases "prefix sep (c # cs)")
    case True
    then show ?thesis by (auto simp: prefix_def)
  next
    case False
    with Cons show ?thesis by auto
  qed
qed

text \<open>A path is its repository name followed by nothing or by something that starts with \<open>/\<close>.\<close>

lemma repoName_of_shape:
  "\<exists>t. path = repoName_of path @ t \<and> (t = [] \<or> prefix ''/'' t)"
proof -
  let ?a = "split_first ''/manifests/'' path"
  from split_first_cases[of "''/manifests/''" path]
  obtain t1 where t1: "path = ?a @ t1" "t1 = [] \<or> prefix ''/'' t1"
    by (auto simp: prefix_def)
  from split_first_cases[of "''/blobs/''" ?a]
  obtain t2 where t2: "?a = repoName_of path @ t2" "t2 = [] \<or> prefix ''/'' t2"
    unfolding repoName_of_def by (auto simp: prefix_def)
  from t1 t2 have "path = repoName_of path @ (t2 @ t1)" "t2 @ t1 = [] \<or> prefix ''/'' (t2 @ t1)"
    by (auto simp: prefix_def)
  then show ?thesis by blast
qed

lemma manifests_part_shape:
  "\<exists>t. split_first ''/manifests/'' path = repoName_of path @ t \<and> (t = [] \<or> prefix ''/'' t)"
  using split_first_cases[of "''/blobs/''" "split_first ''/manifests/'' path"]
  unfolding repoName_of_def by (auto simp: prefix_def)

lemma first_segment:
  assumes "s = r @ t" and "t = [] \<or> prefix ''/'' t" and "CHR ''/'' \<notin> set r"
  shows "takeWhile (\<lambda>c. c \<noteq> CHR ''/'') s = r"
proof -
  have "takeWhile (\<lambda>c. c \<noteq> CHR ''/'') (r @ t) = r @ takeWhile (\<lambda>c. c \<noteq> CHR ''/'') t"
    using assms(3) by (intro takeWhile_append2) auto
  moreover have "takeWhile (\<lambda>c. c \<noteq> CHR ''/'') t = []"
    using assms(2) by (auto simp: prefix_def)
  ultimately show ?thesis
    using assms(1) by simp
qed

lemma library_before_manifests:
  assumes "\<not> prefix ''manifests/'' path"
  shows "split_first ''/manifests/'' (''library/'' @ path) = ''library/'' @ split_first ''/manifests/'' path"
  using assms by simp

lemma library_before_blobs:
  assumes "\<not> prefix ''blobs/'' path"
  shows "split_first ''/blobs/'' (''library/'' @ path) = ''library/'' @ split_first ''/blobs/'' path"
  using assms by simp

lemma repoName_of_library:
  assumes "CHR ''/'' \<notin> set (repoName_of path)"
    and "repoName_of path \<noteq> ''manifests''" and "repoName_of path \<noteq> ''blobs''"
  shows "repoName_of (''library/'' @ path) = ''library/'' @ repoName_of path"
proof -
  let ?r = "repoName_of path"
  let ?a = "split_first ''/manifests/'' path"
  obtain t where t: "path = ?r @ t" "t = [] \<or> prefix ''/'' t"
    using repoName_of_shape by blast
  have seg: "takeWhile (\<lambda>c. c \<noteq> CHR ''/'') path = ?r"
    using t assms(1) by (rule first_segment)
  have no_m: "\<not> prefix ''manifests/'' path"
  proof
    assume "prefix ''manifests/'' path"
    then obtain q where "path = ''manifests/'' @ q"
      by (auto simp: prefix_def)
    then have "takeWhile (\<lambda>c. c \<noteq> CHR ''/'') path = ''manifests''"
      by simp
    with seg assms(2) show False
      by simp
  qed
  obtain t2 where t2: "?a = ?r @ t2" "t2 = [] \<or> prefix ''/'' t2"
    using manifests_part_shape by blast
  have seg2: "takeWhile (\<lambda>c. c \<noteq> CHR ''/'') ?a = ?r"
    using t2 assms(1) by (rule first_segment)
  have no_b: "\<not> prefix ''blobs/'' ?a"
  proof
    assume "prefix ''blobs/'' ?a"
    then obtain q where "?a = ''blobs/'' @ q"
      by (auto simp: prefix_def)
    then have "takeWhile (\<lambda>c. c \<noteq> CHR ''/'') ?a = ''blobs''"
      by simp
    with seg2 assms(3) show False
      by simp
  qed
  have "repoName_of (''library/'' @ path) = split_first ''/blobs/'' (''library/'' @ ?a)"
    unfolding repoName_of_def using library_before_manifests[OF no_m] by simp
  also have "\<dots> = ''library/'' @ split_first ''/blobs/'' ?a"
    using no_b by (rule library_before_blobs)
  finally show ?thesis
    by (simp add: repoName_of_def)
qed

lemma library_path_unfold:
  "library_path path =
     (if repoName_of path \<noteq> [] \<and> CHR ''/'' \<notin> set (repoName_of path)
         \<and> CHR '':'' \<notin> set (repoName_of path)
      then ''library/'' @ path else path)"
  by (simp add: library_path_def Let_def js_includes_char)

text \<open>
  Where the rewriting does what is meant: \<open>library/\<close> is put in front of the image path
  exactly when the repository name is not empty and has neither \<open>/\<close> nor \<open>:\<close>, and,
  provided the repository name is not the word \<open>manifests\<close> or \<open>blobs\<close>, rewriting
  a second time changes nothing.
\<close>

lemma library_path_twice:
  assumes "repoName_of path \<noteq> ''manifests''" and "repoName_of path \<noteq> ''blobs''"
  shows "library_path path =
           (if repoName_of path \<noteq> [] \<and> CHR ''/'' \<notin> set (repoName_of path)
               \<and> CHR '':'' \<notin> set (repoName_of path)
            then ''library/'' @ path else path)
       \<and> library_path (library_path path) = library_path path"
proof (cases "repoName_of path \<noteq> [] \<and> CHR ''/'' \<notin> set (repoName_of path)
               \<and> CHR '':'' \<notin> set (repoName_of path)")
  case True
  then have "repoName_of (''library/'' @ path) = ''library/'' @ repoName_of path"
    using assms by (intro repoName_of_library) auto
  then have "CHR ''/'' \<in> set (repoName_of (''library/'' @ path))"
    by simp
  then have "library_path (''library/'' @ path) = ''library/'' @ path"
    by (simp add: library_path_unfold)
  with True show ?thesis
    by (simp add: library_path_unfold)
next
  case False
  then show ?thesis
    by (auto simp add: library_path_unfold)
qed

text \<open>
  C5. The official image \<open>busybox\<close> is pulled from Docker Hub as \<open>library/busybox\<close>
  when it is asked for without a registry prefix. Asked for under the prefix of Docker
  Hub, \<open>register/docker/hub\<close>, it is not: what \<open>extractPrefixAndRest\<close> leaves starts
  with \<open>/\<close>, so the repository name \<open>/busybox\<close> counts as one with a namespace and
  the upstream is asked for \<open>busybox\<close>. The image path \<open>library/manifests/latest\<close>
  is sent on as \<open>library/library/manifests/latest\<close>, and for a repository named
  \<open>manifests\<close> the rewriting applied twice puts \<open>library/\<close> in front twice.
\<close>

theorem library_prefix_missed_or_doubled:
  "map f_url (fst (handleRequest no_network
       (example_request ''/v2/busybox/manifests/latest'' [] [])))
     = [''https://registry-1.docker.io/v2/library/busybox/manifests/latest'']
   \<and> map f_url (fst (handleRequest no_network
       (example_request ''/v2/register/docker/hub/busybox/manifests/latest'' [] [])))
     = [''https://registry-1.docker.io/v2/busybox/manifests/latest'']
   \<and> extractPrefixAndRest ''register/docker/hub/busybox/manifests/latest''
         (Object_keys registryConfigs)
     = (Some ''register/docker/hub'', ''/busybox/manifests/latest'')
   \<and> library_path ''/busybox/manifests/latest'' = ''/busybox/manifests/latest''
   \<and> library_path ''library/manifests/latest'' = ''library/library/manifests/latest''
   \<and> map f_url (fst (handleRequest no_network
       (example_request ''/v2/library/manifests/latest'' [] [])))
     = [''https://registry-1.docker.io/v2/library/library/manifests/latest'']
   \<and> library_path ''manifests/manifests/latest'' = ''library/manifests/manifests/latest''
   \<and> library_path (library_path ''manifests/manifests/latest'')
       = ''library/library/manifests/manifests/latest''"
  by code_simp

text \<open>
  The gateway with the \<open>/v2/auth\<close> endpoint answers with a redirect instead: \<open>busybox\<close>
  is sent to \<open>library/busybox\<close>, which is not redirected again; a name with a
  namespace of its own, \<open>user/img\<close>, is redirected to \<open>library/user/img\<close> as well.
\<close>

lemma library_redirect_examples:
  "library_redirect ''/v2/busybox/manifests/latest'' ''busybox/manifests/latest''
     = Some ''/v2/library/busybox/manifests/latest''
   \<and> library_redirect ''/v2/library/busybox/manifests/latest'' ''library/busybox/manifests/latest''
     = None
   \<and> library_redirect ''/v2/user/img/manifests/latest'' ''user/img/manifests/latest''
     = Some ''/v2/library/user/img/manifests/latest''"
  by code_simp

end
